theory Spec2Isabelle
  imports Complex_Main "HOL-Library.Monad_Syntax" "HOL-Library.Char_ord"
    "HOL-Library.List_Lexorder"
begin

section \<open>Python values held in the collaborator's tables\<close>

text \<open>
  The cells of the tables that \<open>fastf1\<close> hands to \<open>main.py\<close> are Python objects.
  The model keeps the kinds that those tables hold: \<open>None\<close>, \<open>str\<close>, integral numbers,
  the float \<open>nan\<close>, pandas \<open>Timedelta\<close> (a count of nanoseconds) and pandas \<open>NaT\<close>.
  A finite float with an integral value (FastF1 stores positions and lap numbers as
  \<open>1.0\<close>, \<open>2.0\<close>, ...) is represented by \<open>PInt\<close>: the code applies only \<open>int()\<close> to
  such cells, which gives the same number.

  An operation of the Python runtime that raises returns \<open>None\<close> in the model; every
  such exception is an \<open>Exception\<close> and is met by the handlers of \<open>main.py\<close>, which
  only print it.
\<close>

datatype pyval =
    PNone
  | PStr string
  | PInt int
  | PNaN
  | PTimedelta int
  | PNaT

subsection \<open>\<open>int()\<close>\<close>

definition digit_val :: "char \<Rightarrow> nat option" where
  "digit_val c =
     (let k = of_char c :: nat in if 48 \<le> k \<and> k \<le> 57 then Some (k - 48) else None)"

definition is_space :: "char \<Rightarrow> bool" where
  "is_space c \<longleftrightarrow> of_char c \<in> {9, 10, 11, 12, 13, 32 :: nat}"

definition strip :: "string \<Rightarrow> string" where
  "strip s = rev (dropWhile is_space (rev (dropWhile is_space s)))"

text \<open>
  Decimal digits, where a single underscore may stand between two digits;
  \<open>acc\<close> is the value of the digits read so far (at least one).
\<close>

fun parse_digits :: "nat \<Rightarrow> string \<Rightarrow> nat option" where
  "parse_digits acc [] = Some acc"
| "parse_digits acc [c] =
     (case digit_val c of None \<Rightarrow> None | Some v \<Rightarrow> Some (10 * acc + v))"
| "parse_digits acc (c # d # cs) =
     (if c = CHR ''_'' then
        (case digit_val d of None \<Rightarrow> None | Some v \<Rightarrow> parse_digits (10 * acc + v) cs)
      else
        (case digit_val c of None \<Rightarrow> None | Some v \<Rightarrow> parse_digits (10 * acc + v) (d # cs)))"

definition parse_nat :: "string \<Rightarrow> nat option" where
  "parse_nat s =
     (case s of [] \<Rightarrow> None
      | c # cs \<Rightarrow> (case digit_val c of None \<Rightarrow> None | Some v \<Rightarrow> parse_digits v cs))"

text \<open>
  \<open>int(s)\<close> for a string of ASCII characters: surrounding whitespace is dropped, one
  sign may precede the digits; anything else is a \<open>ValueError\<close>.
\<close>

definition int_of_str :: "string \<Rightarrow> int option" where
  "int_of_str s =
     (case strip s of
        [] \<Rightarrow> None
      | c # cs \<Rightarrow>
          if c = CHR ''-'' then map_option (\<lambda>n. - int n) (parse_nat cs)
          else if c = CHR ''+'' then map_option int (parse_nat cs)
          else map_option int (parse_nat (c # cs)))"

text \<open>
  \<open>int(v)\<close>: \<open>None\<close> and a \<open>Timedelta\<close> raise \<open>TypeError\<close>, \<open>nan\<close> raises
  \<open>ValueError\<close>; \<open>NaT\<close> converts to the integer that represents it
  (\<open>- 2 ^ 63\<close>).
\<close>

fun py_int :: "pyval \<Rightarrow> int option" where
  "py_int PNone = None"
| "py_int (PStr s) = int_of_str s"
| "py_int (PInt n) = Some n"
| "py_int PNaN = None"
| "py_int (PTimedelta ns) = None"
| "py_int PNaT = Some (- (2 ^ 63))"

subsection \<open>\<open>str()\<close>\<close>

definition digit_char :: "nat \<Rightarrow> char" where
  "digit_char d = ''0123456789'' ! (d mod 10)"

fun str_nat :: "nat \<Rightarrow> string" where
  "str_nat n = (if n < 10 then [digit_char n] else str_nat (n div 10) @ [digit_char n])"

declare str_nat.simps [simp del]

definition str_int :: "int \<Rightarrow> string" where
  "str_int i = (if i < 0 then CHR ''-'' # str_nat (nat (- i)) else str_nat (nat i))"

text \<open>\<open>zfill w n\<close> is Python's format \<open>{n:0w}\<close> for a natural number.\<close>

definition zfill :: "nat \<Rightarrow> nat \<Rightarrow> string" where
  "zfill w n = (let s = str_nat n in replicate (w - length s) (CHR ''0'') @ s)"

text \<open>
  The text of a pandas \<open>Timedelta\<close> of \<open>ns\<close> nanoseconds: the days (rounded down, so
  the rest is never negative), then hours, minutes and seconds of the rest, then the
  fraction of a second with six digits, or nine when the nanoseconds are not a multiple
  of a thousand, or nothing when it is zero.
\<close>

definition str_timedelta :: "int \<Rightarrow> string" where
  "str_timedelta ns =
     (let days = ns div 86400000000000;
          r = nat (ns mod 86400000000000);
          h = r div 3600000000000;
          m = r div 60000000000 mod 60;
          s = r div 1000000000 mod 60;
          frac = r mod 1000000000;
          sign = (if days < 0 then '' +'' else '' '')
      in str_int days @ '' days'' @ sign @ zfill 2 h @ '':'' @ zfill 2 m @ '':'' @ zfill 2 s @
         (if frac = 0 then []
          else if frac mod 1000 = 0 then ''.'' @ zfill 6 (frac div 1000)
          else ''.'' @ zfill 9 frac))"

fun py_str :: "pyval \<Rightarrow> string" where
  "py_str PNone = ''None''"
| "py_str (PStr s) = s"
| "py_str (PInt n) = str_int n"
| "py_str PNaN = ''nan''"
| "py_str (PTimedelta ns) = str_timedelta ns"
| "py_str PNaT = ''NaT''"

subsection \<open>Missing values, subtraction, seconds\<close>

text \<open>pandas \<open>notna\<close>: \<open>None\<close>, \<open>nan\<close> and \<open>NaT\<close> are the missing values.\<close>

fun notna :: "pyval \<Rightarrow> bool" where
  "notna PNone = False"
| "notna PNaN = False"
| "notna PNaT = False"
| "notna v = True"

definition in_int64 :: "int \<Rightarrow> bool" where
  "in_int64 n \<longleftrightarrow> - (2 ^ 63) < n \<and> n < 2 ^ 63"

text \<open>
  \<open>a - b\<close>. Two \<open>Timedelta\<close>s give a \<open>Timedelta\<close> (\<open>OverflowError\<close> outside 64 bits),
  \<open>NaT\<close> on either side of a \<open>Timedelta\<close> or \<open>NaT\<close> gives \<open>NaT\<close>, two integers give
  an integer, \<open>nan\<close> with a number gives \<open>nan\<close>; the other pairs raise \<open>TypeError\<close>.
\<close>

fun py_sub :: "pyval \<Rightarrow> pyval \<Rightarrow> pyval option" where
  "py_sub (PTimedelta a) (PTimedelta b) =
     (if in_int64 (a - b) then Some (PTimedelta (a - b)) else None)"
| "py_sub PNaT (PTimedelta b) = Some PNaT"
| "py_sub (PTimedelta a) PNaT = Some PNaT"
| "py_sub PNaT PNaT = Some PNaT"
| "py_sub (PInt a) (PInt b) = Some (PInt (a - b))"
| "py_sub PNaN (PInt b) = Some PNaN"
| "py_sub (PInt a) PNaN = Some PNaN"
| "py_sub PNaN PNaN = Some PNaN"
| "py_sub a b = None"

text \<open>
  \<open>v.total_seconds()\<close>: only a \<open>Timedelta\<close> has the method (\<open>AttributeError\<close>
  otherwise). The result is a float; the model keeps the exact quotient, of which the
  float is the rounding, so the order of two results is the order of the floats
  (rounding is monotone).
\<close>

fun total_seconds :: "pyval \<Rightarrow> rat option" where
  "total_seconds (PTimedelta ns) = Some (of_int ns / 1000000000)"
| "total_seconds v = None"

section \<open>Tables of the collaborator\<close>

text \<open>
  A pandas \<open>DataFrame\<close> is its column labels and its rows; a row seen through
  \<open>iterrows()\<close> is a \<open>Series\<close> whose labels are the column labels. Column labels are
  taken to be distinct, as they are in the collaborator's tables (a lookup takes the
  first). \<open>None\<close> stands for the \<open>KeyError\<close> of a missing label.
\<close>

type_synonym series = "(string \<times> pyval) list"

record dataframe =
  df_columns :: "string list"
  df_rows :: "pyval list list"

definition iterrows :: "dataframe \<Rightarrow> series list" where
  "iterrows df = map (zip (df_columns df)) (df_rows df)"

text \<open>\<open>row[k]\<close>, \<open>k in row\<close> and \<open>row.get(k, d)\<close> of a \<open>Series\<close>.\<close>

definition getitem :: "series \<Rightarrow> string \<Rightarrow> pyval option" where
  "getitem row k = map_of row k"

definition contains :: "series \<Rightarrow> string \<Rightarrow> bool" where
  "contains row k \<longleftrightarrow> k \<in> set (map fst row)"

definition series_get :: "series \<Rightarrow> string \<Rightarrow> pyval \<Rightarrow> pyval" where
  "series_get row k d = (case map_of row k of None \<Rightarrow> d | Some v \<Rightarrow> v)"

text \<open>A list comprehension whose body may raise: the first exception ends it.\<close>

fun traverse :: "('a \<Rightarrow> 'b option) \<Rightarrow> 'a list \<Rightarrow> 'b list option" where
  "traverse f [] = Some []"
| "traverse f (x # xs) = do { y \<leftarrow> f x; ys \<leftarrow> traverse f xs; Some (y # ys) }"

text \<open>\<open>df[k]\<close>, the column of a label, and \<open>df[mask]\<close>, the rows where a mask holds.\<close>

definition df_column :: "dataframe \<Rightarrow> string \<Rightarrow> pyval list option" where
  "df_column df k =
     (if k \<in> set (df_columns df) then traverse (\<lambda>row. getitem row k) (iterrows df)
      else None)"

definition df_select :: "bool list \<Rightarrow> dataframe \<Rightarrow> dataframe" where
  "df_select keep df = df\<lparr>df_rows := map snd (filter fst (zip keep (df_rows df)))\<rparr>"

definition head :: "nat \<Rightarrow> dataframe \<Rightarrow> dataframe" where
  "head n df = df\<lparr>df_rows := take n (df_rows df)\<rparr>"

subsection \<open>\<open>sort_values\<close>\<close>

fun is_timedelta :: "pyval \<Rightarrow> bool" where
  "is_timedelta (PTimedelta ns) = True"
| "is_timedelta v = False"

fun is_int :: "pyval \<Rightarrow> bool" where
  "is_int (PInt n) = True"
| "is_int v = False"

fun is_str :: "pyval \<Rightarrow> bool" where
  "is_str (PStr s) = True"
| "is_str v = False"

fun the_ns :: "pyval \<Rightarrow> int" where
  "the_ns (PTimedelta ns) = ns"
| "the_ns v = 0"

fun the_int :: "pyval \<Rightarrow> int" where
  "the_int (PInt n) = n"
| "the_int v = 0"

fun the_str :: "pyval \<Rightarrow> string" where
  "the_str (PStr s) = s"
| "the_str v = []"

text \<open>The cell of column \<open>k\<close> in a row of a table with the column labels \<open>cols\<close>.\<close>

definition cell :: "string list \<Rightarrow> string \<Rightarrow> pyval list \<Rightarrow> pyval" where
  "cell cols k r = (case map_of (zip cols r) k of None \<Rightarrow> PNone | Some v \<Rightarrow> v)"

text \<open>
  \<open>df.sort_values(k)\<close>: ascending by the column \<open>k\<close> (\<open>KeyError\<close> without it),
  rows with a missing key last. Keys of one kind are ordered (durations and numbers by
  value, strings by code point); keys of different kinds cannot be compared
  (\<open>TypeError\<close>). pandas does not promise the order of rows with equal keys; the model
  keeps their order, and nothing proved below depends on it.
\<close>

definition sort_values :: "string \<Rightarrow> dataframe \<Rightarrow> dataframe option" where
  "sort_values k df = do {
     col \<leftarrow> df_column df k;
     let key = cell (df_columns df) k;
     let present = filter (\<lambda>r. notna (key r)) (df_rows df);
     let missing = filter (\<lambda>r. \<not> notna (key r)) (df_rows df);
     sorted_rows \<leftarrow>
       (if list_all (\<lambda>r. is_timedelta (key r)) present
          then Some (sort_key (\<lambda>r. the_ns (key r)) present)
        else if list_all (\<lambda>r. is_int (key r)) present
          then Some (sort_key (\<lambda>r. the_int (key r)) present)
        else if list_all (\<lambda>r. is_str (key r)) present
          then Some (sort_key (\<lambda>r. the_str (key r)) present)
        else None);
     Some (df\<lparr>df_rows := sorted_rows @ missing\<rparr>)
   }"

section \<open>The snapshot and the loaded session\<close>

text \<open>
  The records of the five lists of \<open>session_data\<close>. Each field is a key of the
  dictionary that \<open>update_session_data\<close> builds for a row; the prefix names the list.
  Values taken from a row as they are stay \<open>pyval\<close>s.
\<close>

record position_entry =
  pos_position :: int
  pos_driver :: pyval
  pos_full_name :: pyval
  pos_team :: pyval
  pos_number :: int
  pos_grid_position :: "int option"
  pos_status :: pyval

record track_status_entry =
  ts_time :: string
  ts_status :: string
  ts_status_code :: string

record lap_entry =
  lap_driver :: pyval
  lap_team :: pyval
  lap_lap_number :: int
  lap_lap_time :: string
  lap_lap_time_seconds :: rat

record pit_stop_entry =
  pit_driver :: pyval
  pit_team :: pyval
  pit_lap_number :: int
  pit_pit_duration :: "string option"

record message_entry =
  msg_time :: string
  msg_message :: pyval
  msg_category :: pyval

text \<open>The global dictionary \<open>session_data\<close>.\<close>

record snapshot =
  positions :: "position_entry list"
  track_status :: "track_status_entry list"
  fastest_laps :: "lap_entry list"
  pit_stops :: "pit_stop_entry list"
  race_control_messages :: "message_entry list"
  last_update :: "string option"
  is_live :: bool

text \<open>
  A session object of the collaborator, as far as \<open>main.py\<close> reads it: the tables
  \<open>results\<close> and \<open>laps\<close>, and the attributes \<open>track_status\<close> and
  \<open>race_control_messages\<close>, which the code tests with \<open>hasattr\<close>
  (\<open>None\<close>: the object has no such attribute).
\<close>

record session =
  sess_results :: dataframe
  sess_track_status :: "dataframe option"
  sess_laps :: dataframe
  sess_race_control_messages :: "dataframe option"

text \<open>The two globals of the module.\<close>

record globals =
  current_session :: "session option"
  session_data :: snapshot

definition initial_globals :: globals where
  "initial_globals =
     \<lparr>current_session = None,
      session_data =
        \<lparr>positions = [], track_status = [], fastest_laps = [], pit_stops = [],
         race_control_messages = [], last_update = None, is_live = False\<rparr>\<rparr>"

section \<open>\<open>update_session_data\<close>\<close>

subsection \<open>Positions\<close>

definition position_of_row :: "series \<Rightarrow> position_entry option" where
  "position_of_row row = do {
     p \<leftarrow> getitem row ''Position'' \<bind> py_int;
     d \<leftarrow> getitem row ''Abbreviation'';
     f \<leftarrow> getitem row ''FullName'';
     t \<leftarrow> getitem row ''TeamName'';
     n \<leftarrow> getitem row ''DriverNumber'' \<bind> py_int;
     g \<leftarrow> (if contains row ''GridPosition''
            then map_option Some (getitem row ''GridPosition'' \<bind> py_int)
            else Some None);
     s \<leftarrow> getitem row ''Status'';
     Some \<lparr>pos_position = p, pos_driver = d, pos_full_name = f, pos_team = t,
           pos_number = n, pos_grid_position = g, pos_status = s\<rparr>
   }"

definition extract_positions :: "dataframe \<Rightarrow> position_entry list option" where
  "extract_positions results = traverse position_of_row (iterrows results)"

subsection \<open>Track status\<close>

definition status_names :: "(string \<times> string) list" where
  "status_names =
     [(''1'', ''Green Flag''),
      (''2'', ''Yellow Flag''),
      (''4'', ''Safety Car''),
      (''5'', ''Red Flag''),
      (''6'', ''Virtual Safety Car''),
      (''7'', ''VSC Ending'')]"

text \<open>\<open>d.get(k, default)\<close> of a dictionary.\<close>

definition dict_get :: "('k \<times> 'v) list \<Rightarrow> 'k \<Rightarrow> 'v \<Rightarrow> 'v" where
  "dict_get d k dflt = (case map_of d k of None \<Rightarrow> dflt | Some v \<Rightarrow> v)"

definition track_status_of_row :: "series \<Rightarrow> track_status_entry option" where
  "track_status_of_row row = do {
     t \<leftarrow> getitem row ''Time'';
     s \<leftarrow> getitem row ''Status'';
     Some \<lparr>ts_time = py_str t,
           ts_status = dict_get status_names (py_str s) ''Unknown'',
           ts_status_code = py_str s\<rparr>
   }"

definition extract_track_status :: "dataframe \<Rightarrow> track_status_entry list option" where
  "extract_track_status track_status_table = do {
     col \<leftarrow> df_column track_status_table ''Status'';
     let status_changes = df_select (map (\<lambda>v. v \<noteq> PStr ''1'') col) track_status_table;
     traverse track_status_of_row (iterrows status_changes)
   }"

subsection \<open>Fastest laps\<close>

definition lap_of_row :: "series \<Rightarrow> lap_entry option" where
  "lap_of_row row = do {
     d \<leftarrow> getitem row ''Driver'';
     t \<leftarrow> getitem row ''Team'';
     n \<leftarrow> getitem row ''LapNumber'' \<bind> py_int;
     l \<leftarrow> getitem row ''LapTime'';
     secs \<leftarrow> getitem row ''LapTime'' \<bind> total_seconds;
     Some \<lparr>lap_driver = d, lap_team = t, lap_lap_number = n, lap_lap_time = py_str l,
           lap_lap_time_seconds = secs\<rparr>
   }"

definition extract_fastest_laps :: "dataframe \<Rightarrow> lap_entry list option" where
  "extract_fastest_laps laps = do {
     col \<leftarrow> df_column laps ''LapTime'';
     sorted \<leftarrow> sort_values ''LapTime'' (df_select (map notna col) laps);
     let fastest = head 10 sorted;
     traverse lap_of_row (iterrows fastest)
   }"

subsection \<open>Pit stops\<close>

definition pit_stop_of_row :: "series \<Rightarrow> pit_stop_entry option" where
  "pit_stop_of_row row = do {
     d \<leftarrow> getitem row ''Driver'';
     t \<leftarrow> getitem row ''Team'';
     n \<leftarrow> getitem row ''LapNumber'' \<bind> py_int;
     dur \<leftarrow> (if contains row ''PitOutTime''
              then do {
                out_time \<leftarrow> getitem row ''PitOutTime'';
                in_time \<leftarrow> getitem row ''PitInTime'';
                diff \<leftarrow> py_sub out_time in_time;
                Some (Some (py_str diff))
              }
              else Some None);
     Some \<lparr>pit_driver = d, pit_team = t, pit_lap_number = n, pit_pit_duration = dur\<rparr>
   }"

definition extract_pit_stops :: "dataframe \<Rightarrow> pit_stop_entry list option" where
  "extract_pit_stops laps = do {
     col \<leftarrow> df_column laps ''PitInTime'';
     let pit_stop_rows = df_select (map notna col) laps;
     traverse pit_stop_of_row (iterrows pit_stop_rows)
   }"

subsection \<open>Race control messages\<close>

definition message_of_row :: "series \<Rightarrow> message_entry option" where
  "message_of_row row = do {
     t \<leftarrow> getitem row ''Time'';
     m \<leftarrow> getitem row ''Message'';
     Some \<lparr>msg_time = py_str t, msg_message = m,
           msg_category = series_get row ''Category'' (PStr ''Other'')\<rparr>
   }"

definition extract_race_control :: "dataframe \<Rightarrow> message_entry list option" where
  "extract_race_control messages = traverse message_of_row (iterrows messages)"

subsection \<open>The pass\<close>

text \<open>
  The body of the \<open>try\<close> block is six assignments to keys of \<open>session_data\<close>, in this
  order. The right-hand side of an assignment is evaluated before the key is written,
  so a statement that raises writes nothing. Each statement is a step on the
  snapshot that gives \<open>None\<close> when it raises.
\<close>

definition step_positions :: "session \<Rightarrow> snapshot \<Rightarrow> snapshot option" where
  "step_positions cs sd = do {
     ps \<leftarrow> extract_positions (sess_results cs);
     Some (sd\<lparr>positions := ps\<rparr>)
   }"

definition step_track_status :: "session \<Rightarrow> snapshot \<Rightarrow> snapshot option" where
  "step_track_status cs sd =
     (case sess_track_status cs of
        None \<Rightarrow> Some sd
      | Some table \<Rightarrow> do {
          evs \<leftarrow> extract_track_status table;
          Some (sd\<lparr>track_status := evs\<rparr>)
        })"

definition step_fastest_laps :: "session \<Rightarrow> snapshot \<Rightarrow> snapshot option" where
  "step_fastest_laps cs sd = do {
     ls \<leftarrow> extract_fastest_laps (sess_laps cs);
     Some (sd\<lparr>fastest_laps := ls\<rparr>)
   }"

definition step_pit_stops :: "session \<Rightarrow> snapshot \<Rightarrow> snapshot option" where
  "step_pit_stops cs sd = do {
     ps \<leftarrow> extract_pit_stops (sess_laps cs);
     Some (sd\<lparr>pit_stops := ps\<rparr>)
   }"

definition step_race_control :: "session \<Rightarrow> snapshot \<Rightarrow> snapshot option" where
  "step_race_control cs sd =
     (case sess_race_control_messages cs of
        None \<Rightarrow> Some sd
      | Some table \<Rightarrow> do {
          ms \<leftarrow> extract_race_control table;
          Some (sd\<lparr>race_control_messages := ms\<rparr>)
        })"

definition step_last_update :: "string \<Rightarrow> snapshot \<Rightarrow> snapshot option" where
  "step_last_update now sd = Some (sd\<lparr>last_update := Some now\<rparr>)"

text \<open>
  \<open>try: s1; s2; ... except Exception: print(...)\<close>: the statements run in order on
  the snapshot; the first one that raises ends the block, and what was written before
  it stays written.
\<close>

fun try_steps :: "('s \<Rightarrow> 's option) list \<Rightarrow> 's \<Rightarrow> 's" where
  "try_steps [] sd = sd"
| "try_steps (step # steps) sd =
     (case step sd of None \<Rightarrow> sd | Some sd' \<Rightarrow> try_steps steps sd')"

text \<open>\<open>now\<close> is the text of \<open>datetime.now().isoformat()\<close> at the call.\<close>

definition update_session_data :: "string \<Rightarrow> globals \<Rightarrow> globals" where
  "update_session_data now g =
     (case current_session g of
        None \<Rightarrow> g
      | Some cs \<Rightarrow>
          g\<lparr>session_data :=
              try_steps
                [step_positions cs, step_track_status cs, step_fastest_laps cs,
                 step_pit_stops cs, step_race_control cs, step_last_update now]
                (session_data g)\<rparr>)"

section \<open>\<open>load_session\<close>\<close>

text \<open>
  The collaborator: \<open>fastf1.get_session\<close> gives a session object or raises, and
  \<open>session.load()\<close> fills the object or raises (\<open>None\<close>: raises).
\<close>

record collaborator =
  get_session :: "int \<Rightarrow> string \<Rightarrow> string \<Rightarrow> session option"
  load :: "session \<Rightarrow> session option"

definition load_session ::
  "collaborator \<Rightarrow> string \<Rightarrow> int \<Rightarrow> string \<Rightarrow> string \<Rightarrow> globals \<Rightarrow> bool \<times> globals" where
  "load_session fastf1 now year event_name session_type g =
     (case get_session fastf1 year event_name session_type of
        None \<Rightarrow> (False, g)
      | Some session \<Rightarrow>
          (case load fastf1 session of
             None \<Rightarrow> (False, g)
           | Some loaded \<Rightarrow>
               (True, update_session_data now (g\<lparr>current_session := Some loaded\<rparr>))))"

section \<open>The routes\<close>

text \<open>
  A view returns the dictionary it passes to \<open>jsonify\<close> and the HTTP status (200 when
  the view names none). Turning the dictionary into JSON text is Flask's work and is
  not modelled. A view that assigns to no global is a function of the globals alone.
\<close>

record 'a data_response =
  resp_success :: bool
  resp_data :: 'a
  resp_last_update :: "string option"

text \<open>
  In the two records below an optional field is a key that the dictionary has only on
  one of the view's paths.
\<close>

record message_response =
  mr_success :: bool
  mr_message :: string
  mr_last_update :: "string option option"

record load_response =
  lr_success :: bool
  lr_message :: string
  lr_data :: "snapshot option"

record status_response =
  sr_success :: bool
  sr_status :: string
  sr_session_loaded :: bool
  sr_last_update :: "string option"
  sr_is_live :: bool

text \<open>\<open>xs[:n]\<close>: a negative \<open>n\<close> counts from the end of the list.\<close>

definition py_slice_to :: "int \<Rightarrow> 'a list \<Rightarrow> 'a list" where
  "py_slice_to n xs =
     (if 0 \<le> n then take (nat n) xs else take (nat (int (length xs) + n)) xs)"

text \<open>
  \<open>request.args.get(key, default, type=int)\<close>: the default when the key is absent
  or when \<open>int\<close> raises on its text.
\<close>

type_synonym query = "(string \<times> string) list"

definition args_get_int :: "query \<Rightarrow> string \<Rightarrow> int \<Rightarrow> int" where
  "args_get_int args k dflt =
     (case map_of args k of
        None \<Rightarrow> dflt
      | Some v \<Rightarrow> (case int_of_str v of None \<Rightarrow> dflt | Some n \<Rightarrow> n))"

text \<open>The JSON body of \<open>/api/session/load\<close>: an absent key is \<open>None\<close>.\<close>

record load_request =
  req_year :: "int option"
  req_event :: "string option"
  req_session_type :: "string option"

definition load_session_endpoint ::
  "collaborator \<Rightarrow> string \<Rightarrow> load_request \<Rightarrow> globals \<Rightarrow> (load_response \<times> nat) \<times> globals" where
  "load_session_endpoint fastf1 now rq g =
     (let year = (case req_year rq of None \<Rightarrow> 2024 | Some y \<Rightarrow> y);
          event = (case req_event rq of None \<Rightarrow> ''Abu Dhabi'' | Some e \<Rightarrow> e);
          session_type = (case req_session_type rq of None \<Rightarrow> ''R'' | Some t \<Rightarrow> t);
          (success, g') = load_session fastf1 now year event session_type g
      in if success then
           ((\<lparr>lr_success = True,
              lr_message = ''Session loaded: '' @ str_int year @ '' '' @ event @ '' '' @ session_type,
              lr_data = Some (session_data g')\<rparr>, 200), g')
         else
           ((\<lparr>lr_success = False, lr_message = ''Failed to load session'', lr_data = None\<rparr>,
             500), g'))"

definition get_positions :: "globals \<Rightarrow> position_entry list data_response \<times> nat" where
  "get_positions g =
     (\<lparr>resp_success = True, resp_data = positions (session_data g),
       resp_last_update = last_update (session_data g)\<rparr>, 200)"

definition get_top3 :: "globals \<Rightarrow> position_entry list data_response \<times> nat" where
  "get_top3 g =
     (let top3 = (if length (positions (session_data g)) \<ge> 3
                  then py_slice_to 3 (positions (session_data g))
                  else positions (session_data g))
      in (\<lparr>resp_success = True, resp_data = top3,
            resp_last_update = last_update (session_data g)\<rparr>, 200))"

definition get_track_status :: "globals \<Rightarrow> track_status_entry list data_response \<times> nat" where
  "get_track_status g =
     (\<lparr>resp_success = True, resp_data = track_status (session_data g),
       resp_last_update = last_update (session_data g)\<rparr>, 200)"

definition get_fastest_laps :: "query \<Rightarrow> globals \<Rightarrow> lap_entry list data_response \<times> nat" where
  "get_fastest_laps args g =
     (let limit = args_get_int args ''limit'' 5
      in (\<lparr>resp_success = True,
            resp_data = py_slice_to limit (fastest_laps (session_data g)),
            resp_last_update = last_update (session_data g)\<rparr>, 200))"

definition get_pit_stops :: "globals \<Rightarrow> pit_stop_entry list data_response \<times> nat" where
  "get_pit_stops g =
     (\<lparr>resp_success = True, resp_data = pit_stops (session_data g),
       resp_last_update = last_update (session_data g)\<rparr>, 200)"

definition get_race_control :: "query \<Rightarrow> globals \<Rightarrow> message_entry list data_response \<times> nat" where
  "get_race_control args g =
     (let limit = args_get_int args ''limit'' 10
      in (\<lparr>resp_success = True,
            resp_data = py_slice_to limit (race_control_messages (session_data g)),
            resp_last_update = last_update (session_data g)\<rparr>, 200))"

definition get_full_data :: "globals \<Rightarrow> snapshot data_response \<times> nat" where
  "get_full_data g =
     (\<lparr>resp_success = True, resp_data = session_data g,
       resp_last_update = last_update (session_data g)\<rparr>, 200)"

definition get_status :: "globals \<Rightarrow> status_response \<times> nat" where
  "get_status g =
     (\<lparr>sr_success = True, sr_status = ''running'',
       sr_session_loaded = (current_session g \<noteq> None),
       sr_last_update = last_update (session_data g),
       sr_is_live = is_live (session_data g)\<rparr>, 200)"

definition refresh_data :: "string \<Rightarrow> globals \<Rightarrow> (message_response \<times> nat) \<times> globals" where
  "refresh_data now g =
     (if current_session g = None then
        ((\<lparr>mr_success = False, mr_message = ''No session loaded'', mr_last_update = None\<rparr>,
          400), g)
      else
        (let g' = update_session_data now g
         in ((\<lparr>mr_success = True, mr_message = ''Data refreshed'',
                mr_last_update = Some (last_update (session_data g'))\<rparr>, 200), g')))"

section \<open>The states the server can be in\<close>

text \<open>
  The requests the routes answer, and what answering one does to the globals: only
  \<open>/api/session/load\<close> and \<open>/api/refresh\<close> assign to them. The server starts from
  the initial globals; the start-up code calls \<open>load_session\<close>; after that every
  state comes from a request. The collaborator's answers and the clock are free at
  each step.
\<close>

datatype request =
    Home
  | SessionLoad load_request
  | Positions
  | Top3
  | TrackStatus
  | FastestLaps query
  | PitStops
  | RaceControl query
  | FullData
  | Status
  | Refresh

fun handle :: "collaborator \<Rightarrow> string \<Rightarrow> request \<Rightarrow> globals \<Rightarrow> globals" where
  "handle fastf1 now (SessionLoad rq) g = snd (load_session_endpoint fastf1 now rq g)"
| "handle fastf1 now Refresh g = snd (refresh_data now g)"
| "handle fastf1 now rq g = g"

inductive reachable :: "globals \<Rightarrow> bool" where
  start: "reachable initial_globals"
| startup: "reachable (snd (load_session fastf1 now 2024 ''Abu Dhabi'' ''R'' initial_globals))"
| served: "reachable g \<Longrightarrow> reachable (handle fastf1 now rq g)"

section \<open>What each statement of the pass does, seen from outside\<close>

text \<open>
  The outcome of one of the five extractions on a session: it raised, it was skipped
  because the session has no such attribute, or it gave the list to store.
\<close>

datatype 'a outcome = Raised | Skipped | Extracted 'a

definition of_result :: "'a option \<Rightarrow> 'a outcome" where
  "of_result r = (case r of None \<Rightarrow> Raised | Some v \<Rightarrow> Extracted v)"

definition positions_outcome :: "session \<Rightarrow> position_entry list outcome" where
  "positions_outcome cs = of_result (extract_positions (sess_results cs))"

definition track_status_outcome :: "session \<Rightarrow> track_status_entry list outcome" where
  "track_status_outcome cs =
     (case sess_track_status cs of
        None \<Rightarrow> Skipped
      | Some table \<Rightarrow> of_result (extract_track_status table))"

definition fastest_laps_outcome :: "session \<Rightarrow> lap_entry list outcome" where
  "fastest_laps_outcome cs = of_result (extract_fastest_laps (sess_laps cs))"

definition pit_stops_outcome :: "session \<Rightarrow> pit_stop_entry list outcome" where
  "pit_stops_outcome cs = of_result (extract_pit_stops (sess_laps cs))"

definition race_control_outcome :: "session \<Rightarrow> message_entry list outcome" where
  "race_control_outcome cs =
     (case sess_race_control_messages cs of
        None \<Rightarrow> Skipped
      | Some table \<Rightarrow> of_result (extract_race_control table))"

text \<open>What a key holds after a statement with the given outcome ran.\<close>

definition stored :: "'a outcome \<Rightarrow> 'a \<Rightarrow> 'a" where
  "stored out previous =
     (case out of Extracted v \<Rightarrow> v | Skipped \<Rightarrow> previous | Raised \<Rightarrow> previous)"

text \<open>No statement of the pass raises on the session.\<close>

definition pass_completes :: "session \<Rightarrow> bool" where
  "pass_completes cs \<longleftrightarrow>
     positions_outcome cs \<noteq> Raised \<and> track_status_outcome cs \<noteq> Raised \<and>
     fastest_laps_outcome cs \<noteq> Raised \<and> pit_stops_outcome cs \<noteq> Raised \<and>
     race_control_outcome cs \<noteq> Raised"

section \<open>Example sessions\<close>

text \<open>A race session with two classified drivers and three laps.\<close>

definition race_results :: dataframe where
  "race_results =
     \<lparr>df_columns = [''Position'', ''Abbreviation'', ''FullName'', ''TeamName'',
                    ''DriverNumber'', ''GridPosition'', ''Status''],
      df_rows =
        [[PInt 1, PStr ''NOR'', PStr ''Lando Norris'', PStr ''McLaren'', PStr ''4'',
          PInt 1, PStr ''Finished''],
         [PInt 2, PStr ''SAI'', PStr ''Carlos Sainz'', PStr ''Ferrari'', PStr ''55'',
          PInt 3, PStr ''Finished'']]\<rparr>"

definition race_laps :: dataframe where
  "race_laps =
     \<lparr>df_columns = [''Driver'', ''Team'', ''LapNumber'', ''LapTime'', ''PitInTime'',
                    ''PitOutTime''],
      df_rows =
        [[PStr ''NOR'', PStr ''McLaren'', PInt 1, PTimedelta 91000000000, PNaT, PNaT],
         [PStr ''SAI'', PStr ''Ferrari'', PInt 1, PTimedelta 90500000000,
          PTimedelta 5000000000000, PNaT],
         [PStr ''NOR'', PStr ''McLaren'', PInt 2, PNaT, PNaT, PTimedelta 5000000000000]]\<rparr>"

definition race_track_status :: dataframe where
  "race_track_status =
     \<lparr>df_columns = [''Time'', ''Status'', ''Message''],
      df_rows =
        [[PTimedelta 0, PStr ''1'', PStr ''AllClear''],
         [PTimedelta 3723000000000, PStr ''4'', PStr ''SCDeployed''],
         [PTimedelta 3800000000000, PStr ''9'', PStr ''Other'']]\<rparr>"

definition race_messages :: dataframe where
  "race_messages =
     \<lparr>df_columns = [''Time'', ''Message''],
      df_rows = [[PTimedelta 0, PStr ''GREEN LIGHT - PIT EXIT OPEN'']]\<rparr>"

definition race_session :: session where
  "race_session =
     \<lparr>sess_results = race_results, sess_track_status = Some race_track_status,
      sess_laps = race_laps, sess_race_control_messages = Some race_messages\<rparr>"

text \<open>A collaborator that loads the race session, and one that knows no event.\<close>

definition race_fastf1 :: collaborator where
  "race_fastf1 = \<lparr>get_session = (\<lambda>y e t. Some race_session), load = Some\<rparr>"

definition no_fastf1 :: collaborator where
  "no_fastf1 = \<lparr>get_session = (\<lambda>y e t. None), load = Some\<rparr>"

text \<open>
  A practice session: the collaborator gives no classification there, the position
  of the only row is \<open>nan\<close>.
\<close>

definition practice_results :: dataframe where
  "practice_results =
     \<lparr>df_columns = [''Position'', ''Abbreviation'', ''FullName'', ''TeamName'',
                    ''DriverNumber'', ''Status''],
      df_rows =
        [[PNaN, PStr ''NOR'', PStr ''Lando Norris'', PStr ''McLaren'', PStr ''4'', PStr []]]\<rparr>"

definition practice_session :: session where
  "practice_session = race_session\<lparr>sess_results := practice_results\<rparr>"

definition practice_fastf1 :: collaborator where
  "practice_fastf1 = \<lparr>get_session = (\<lambda>y e t. Some practice_session), load = Some\<rparr>"

text \<open>A session whose lap table is empty and has no columns.\<close>

definition no_laps_session :: session where
  "no_laps_session = race_session\<lparr>sess_laps := \<lparr>df_columns = [], df_rows = []\<rparr>\<rparr>"


section \<open>What every step of the pass keeps\<close>

lemma try_steps_preserves:
  assumes "\<And>f s s'. f \<in> set fs \<Longrightarrow> f s = Some s' \<Longrightarrow> P s \<Longrightarrow> P s'" and "P s"
  shows "P (try_steps fs s)"
  using assms
proof (induction fs arbitrary: s)
  case Nil
  then show ?case by simp
next
  case (Cons f fs)
  show ?case
  proof (cases "f s")
    case None
    with Cons.prems(2) show ?thesis by simp
  next
    case (Some s')
    have "P s'" using Cons.prems(1)[of f s s'] Some Cons.prems(2) by simp
    moreover have "P t'" if "h \<in> set fs" "h t = Some t'" "P t" for h t t'
      using Cons.prems(1)[of h t t'] that by simp
    ultimately have "P (try_steps fs s')" by (rule Cons.IH[rotated])
    with Some show ?thesis by simp
  qed
qed

lemma step_positions_is_live: "step_positions cs sd = Some sd' \<Longrightarrow> is_live sd' = is_live sd"
  by (auto simp: step_positions_def split: bind_splits)

lemma step_track_status_is_live:
  "step_track_status cs sd = Some sd' \<Longrightarrow> is_live sd' = is_live sd"
  by (auto simp: step_track_status_def split: bind_splits option.splits)

lemma step_fastest_laps_is_live:
  "step_fastest_laps cs sd = Some sd' \<Longrightarrow> is_live sd' = is_live sd"
  by (auto simp: step_fastest_laps_def split: bind_splits)

lemma step_pit_stops_is_live: "step_pit_stops cs sd = Some sd' \<Longrightarrow> is_live sd' = is_live sd"
  by (auto simp: step_pit_stops_def split: bind_splits)

lemma step_race_control_is_live:
  "step_race_control cs sd = Some sd' \<Longrightarrow> is_live sd' = is_live sd"
  by (auto simp: step_race_control_def split: bind_splits option.splits)

lemma step_last_update_is_live:
  "step_last_update now sd = Some sd' \<Longrightarrow> is_live sd' = is_live sd"
  by (auto simp: step_last_update_def)

lemma update_session_data_is_live:
  "is_live (session_data (update_session_data now g)) = is_live (session_data g)"
proof (cases "current_session g")
  case None
  then show ?thesis by (simp add: update_session_data_def)
next
  case (Some cs)
  have "is_live (try_steps
                [step_positions cs, step_track_status cs, step_fastest_laps cs,
                 step_pit_stops cs, step_race_control cs, step_last_update now]
                (session_data g)) = is_live (session_data g)"
    by (rule try_steps_preserves)
       (auto dest: step_positions_is_live step_track_status_is_live step_fastest_laps_is_live
          step_pit_stops_is_live step_race_control_is_live step_last_update_is_live)
  with Some show ?thesis by (simp add: update_session_data_def)
qed

lemma load_session_is_live:
  "is_live (session_data (snd (load_session fastf1 now y e t g))) = is_live (session_data g)"
  by (simp add: load_session_def update_session_data_is_live split: option.splits)

lemma handle_is_live:
  "is_live (session_data (handle fastf1 now rq g)) = is_live (session_data g)"
  by (cases rq)
     (simp_all add: load_session_endpoint_def refresh_data_def Let_def split_beta
        load_session_is_live update_session_data_is_live)

section \<open>Properties\<close>

text \<open>
  C3. When the collaborator fails, that is when \<open>get_session\<close> raises or the
  \<open>load\<close> of the session it gave raises, \<open>load_session\<close> returns \<open>False\<close> (it
  returns, so no exception reaches the caller) and the globals after the call, the
  current session and every key of \<open>session_data\<close>, are the globals before it.
\<close>

theorem load_session_failure:
  "get_session fastf1 year event_name session_type = None \<or>
   (\<exists>s. get_session fastf1 year event_name session_type = Some s \<and> load fastf1 s = None) \<Longrightarrow>
   load_session fastf1 now year event_name session_type g = (False, g)"
  by (auto simp: load_session_def)

theorem load_session_failure_witness:
  "get_session no_fastf1 2024 ''Atlantis'' ''R'' = None \<and>
   load_session no_fastf1 ''2024-12-08T17:00:00''
     2024 ''Atlantis'' ''R'' initial_globals = (False, initial_globals)"
  using load_session_failure
    [of "no_fastf1" 2024 "''Atlantis''" "''R''"
        "''2024-12-08T17:00:00''" initial_globals]
  by (simp add: no_fastf1_def)

text \<open>
  C6. When no session is loaded (\<open>current_session\<close> is \<open>None\<close>), \<open>/api/refresh\<close>
  answers HTTP 400 with \<open>success\<close> false and leaves the globals, hence every key of
  \<open>session_data\<close>, as they were.
\<close>

theorem refresh_without_session:
  "current_session g = None \<Longrightarrow>
     refresh_data now g =
       ((\<lparr>mr_success = False, mr_message = ''No session loaded'', mr_last_update = None\<rparr>, 400), g)"
  by (simp add: refresh_data_def)

theorem refresh_without_session_witness:
  "current_session initial_globals = None \<and>
   snd (fst (refresh_data ''2024-12-08T17:00:00'' initial_globals)) = 400 \<and>
   \<not> mr_success (fst (fst (refresh_data ''2024-12-08T17:00:00'' initial_globals))) \<and>
   snd (refresh_data ''2024-12-08T17:00:00'' initial_globals) = initial_globals"
  using refresh_without_session [of initial_globals "''2024-12-08T17:00:00''"]
  by (simp add: initial_globals_def)

text \<open>
  C7. \<open>/api/top3\<close> returns \<open>min 3 (len positions)\<close> entries, and they are the first
  entries of the list that \<open>/api/positions\<close> returns, in the same order.
\<close>

theorem top3_prefix_of_positions:
  "length (resp_data (fst (get_top3 g))) = min 3 (length (positions (session_data g)))
   \<and> resp_data (fst (get_top3 g)) =
       take (min 3 (length (positions (session_data g)))) (resp_data (fst (get_positions g)))"
  by (simp add: get_top3_def get_positions_def py_slice_to_def Let_def)

text \<open>
  C9. \<open>is_live\<close> is \<open>False\<close> in the initial globals; \<open>update_session_data\<close>,
  \<open>load_session\<close> and the handling of any request leave it as it is; so it is
  \<open>False\<close> in every state the server reaches, and \<open>/api/status\<close> reports it so.
\<close>

theorem is_live_always_false:
  "\<not> is_live (session_data initial_globals) \<and>
   is_live (session_data (update_session_data now g)) = is_live (session_data g) \<and>
   is_live (session_data (snd (load_session fastf1 now y e t g))) = is_live (session_data g) \<and>
   is_live (session_data (handle fastf1 now rq g)) = is_live (session_data g) \<and>
   (reachable g' \<longrightarrow> \<not> is_live (session_data g') \<and> \<not> sr_is_live (fst (get_status g')))"
proof -
  have "\<not> is_live (session_data g') \<and> \<not> sr_is_live (fst (get_status g'))" if "reachable g'"
    using that
  proof (induction rule: reachable.induct)
    case start
    then show ?case by (simp add: initial_globals_def get_status_def)
  next
    case (startup fastf1 now)
    then show ?case by (simp add: load_session_is_live get_status_def initial_globals_def)
  next
    case (served g fastf1 now rq)
    then show ?case by (simp add: handle_is_live get_status_def)
  qed
  moreover have "\<not> is_live (session_data initial_globals)"
    by (simp add: initial_globals_def)
  ultimately show ?thesis
    by (simp add: update_session_data_is_live load_session_is_live handle_is_live)
qed

theorem is_live_always_false_witness:
  "reachable (handle no_fastf1 ''2024-12-08T17:00:00''
      Refresh initial_globals) \<and>
   \<not> sr_is_live (fst (get_status
      (handle no_fastf1 ''2024-12-08T17:00:00''
         Refresh initial_globals)))"
  using is_live_always_false
    [of _ _ _ _ _ _ _ "handle no_fastf1
        ''2024-12-08T17:00:00'' Refresh initial_globals"]
    reachable.served [OF reachable.start,
      of "no_fastf1" "''2024-12-08T17:00:00''" Refresh]
  by simp

end
